theory Spec2Isabelle
  imports Complex_Main
begin

section \<open>The ingest service: \<open>fastapi-ingest/_endpoint.py\<close>\<close>

text \<open>
  The module reads four environment variables when it is loaded, registers two routes on
  a FastAPI application, and its \<open>POST /ingest\<close> handler inserts one synthetic
  vital-sign reading through the psycopg2 driver. The Python of the module is embedded
  function by function, with the source's names. What the module calls but does not
  define (the process environment, the random generator, the driver and the database
  behind it) is made explicit: the environment is a map, the random draws and the
  faults of the database are fields of a \<open>scenario\<close> the handler is run against, and
  the database with its connections is a \<open>world\<close> that every effectful call takes and
  returns.
\<close>

subsection \<open>Values and errors\<close>

datatype error =
    KeyError string
  | OperationalError
  | IntegrityError
  | ProgrammingError

text \<open>A Python value passed as a statement parameter: a \<open>str\<close> or a \<open>float\<close>.
  A float is an IEEE double; \<open>PyFloat\<close> carries the exact value of the double, a
  rational whose denominator is a power of two. Every \<open>PyFloat\<close> of this module is a
  result of \<open>fl\<close> below, the rounding of the double arithmetic.\<close>

datatype py_value = PyStr string | PyFloat rat

text \<open>A value as the database receives it. A float parameter arrives as the double the
  code computed (\<open>SqlFloat\<close>, with its exact value); how the column's type stores it
  is the schema's matter, which is not part of the module.\<close>

datatype sql_value = SqlText string | SqlFloat rat | SqlTimestamp nat

type_synonym row = "(string \<times> sql_value) list"

type_synonym body = "(string \<times> string) list"

subsection \<open>Module level: configuration and routes (lines 5--10, 36, 40)\<close>

type_synonym environ = "string \<rightharpoonup> string"

text \<open>\<open>os.environ[k]\<close> raises \<open>KeyError(k)\<close> when the variable is not set.\<close>

definition environ_get :: "environ \<Rightarrow> string \<Rightarrow> error + string" where
  "environ_get env k = (case env k of None \<Rightarrow> Inl (KeyError k) | Some v \<Rightarrow> Inr v)"

datatype http_method = GET | POST

datatype handler = Health | Ingest

text \<open>The module's namespace while it is being loaded: a global is \<open>None\<close> until its
  assignment has run, and \<open>routes\<close> are the handlers the decorators have registered
  on \<open>app\<close> so far.\<close>

record module_ns =
  DB_USER :: "string option"
  DB_PASS :: "string option"
  DB_NAME :: "string option"
  DB_HOST :: "string option"
  routes :: "(http_method \<times> string \<times> handler) list"

definition fresh_ns :: module_ns where
  "fresh_ns = \<lparr>DB_USER = None, DB_PASS = None, DB_NAME = None, DB_HOST = None, routes = []\<rparr>"

text \<open>Loading the module runs its top-level statements in order and stops at the first
  one that raises; the result is the namespace reached and the exception, if any.\<close>

definition load_module :: "environ \<Rightarrow> module_ns \<times> error option" where
  "load_module env =
    (let ns0 = fresh_ns in
     case environ_get env ''DB_USER'' of
       Inl e \<Rightarrow> (ns0, Some e)
     | Inr u \<Rightarrow>
    (let ns1 = ns0\<lparr>DB_USER := Some u\<rparr> in
     case environ_get env ''DB_PASS'' of
       Inl e \<Rightarrow> (ns1, Some e)
     | Inr p \<Rightarrow>
    (let ns2 = ns1\<lparr>DB_PASS := Some p\<rparr> in
     case environ_get env ''DB_NAME'' of
       Inl e \<Rightarrow> (ns2, Some e)
     | Inr n \<Rightarrow>
    (let ns3 = ns2\<lparr>DB_NAME := Some n\<rparr> in
     case environ_get env ''INSTANCE_CONNECTION_NAME'' of
       Inl e \<Rightarrow> (ns3, Some e)
     | Inr i \<Rightarrow>
    (let ns4 = ns3\<lparr>DB_HOST := Some (''/cloudsql/'' @ i)\<rparr>;
         ns5 = ns4\<lparr>routes := routes ns4 @ [(GET, ''/'', Health)]\<rparr>;
         ns6 = ns5\<lparr>routes := routes ns5 @ [(POST, ''/ingest'', Ingest)]\<rparr>
     in (ns6, None))))))"

text \<open>The four variables the module reads.\<close>

definition required_vars :: "string list" where
  "required_vars = [''DB_USER'', ''DB_PASS'', ''DB_NAME'', ''INSTANCE_CONNECTION_NAME'']"

text \<open>The configuration of a module that has loaded.\<close>

record config =
  cfg_user :: string
  cfg_password :: string
  cfg_dbname :: string
  cfg_host :: string

text \<open>The server can only serve an application whose module has loaded: a module that
  raised has no application object to hand to it.\<close>

definition startup :: "environ \<Rightarrow> error + module_ns" where
  "startup env = (case load_module env of (ns, None) \<Rightarrow> Inr ns | (ns, Some e) \<Rightarrow> Inl e)"

definition first_missing :: "environ \<Rightarrow> string list \<Rightarrow> string option" where
  "first_missing env ks = (case filter (\<lambda>k. env k = None) ks of [] \<Rightarrow> None | k # _ \<Rightarrow> Some k)"

subsection \<open>The statement (lines 12--17)\<close>

definition SQL_QUERY :: string where
  "SQL_QUERY =
     [CHR 0x0A] @
     ''INSERT INTO public.vitals_events ('' @ [CHR 0x0A] @
     ''  event_id, patient_id, loinc_code, code_display,'' @ [CHR 0x0A] @
     ''  value_num, unit, effective_ts, source, raw'' @ [CHR 0x0A] @
     '') VALUES (%s,%s,%s,%s,%s,%s,NOW(),%s,%s)'' @ [CHR 0x0A]"

text \<open>
  How the database reads a statement of the form
  \<open>INSERT INTO t (c1, ..., cn) VALUES (e1, ..., en)\<close>, where each \<open>e\<close> is the driver's
  placeholder \<open>%s\<close> or a call of \<open>NOW()\<close>: white space is insignificant, the
  column list and the value list are split at commas.
\<close>

datatype sql_expr = Placeholder | Now

record insert_stmt =
  into :: string
  columns :: "string list"
  exprs :: "sql_expr list"

definition is_space :: "char \<Rightarrow> bool" where
  "is_space c = (c = CHR '' '' \<or> c = CHR 0x0A \<or> c = CHR 0x09 \<or> c = CHR 0x0D)"

fun strip_prefix :: "string \<Rightarrow> string \<Rightarrow> string option" where
  "strip_prefix [] s = Some s"
| "strip_prefix (p # ps) [] = None"
| "strip_prefix (p # ps) (c # cs) = (if p = c then strip_prefix ps cs else None)"

fun split_on :: "char \<Rightarrow> string \<Rightarrow> string list" where
  "split_on d [] = [[]]"
| "split_on d (c # cs) =
     (if c = d then [] # split_on d cs
      else (case split_on d cs of [] \<Rightarrow> [[c]] | w # ws \<Rightarrow> (c # w) # ws))"

definition read_expr :: "string \<Rightarrow> sql_expr option" where
  "read_expr s =
     (if s = ''%s'' then Some Placeholder else if s = ''NOW()'' then Some Now else None)"

definition read_insert :: "string \<Rightarrow> insert_stmt option" where
  "read_insert sql =
    (let s = filter (\<lambda>c. \<not> is_space c) sql in
     case strip_prefix ''INSERTINTO'' s of
       None \<Rightarrow> None
     | Some r1 \<Rightarrow>
    (case dropWhile (\<lambda>c. c \<noteq> CHR ''('') r1 of
       [] \<Rightarrow> None
     | _ # r2 \<Rightarrow>
    (case strip_prefix '')VALUES('' (dropWhile (\<lambda>c. c \<noteq> CHR '')'') r2) of
       None \<Rightarrow> None
     | Some r3 \<Rightarrow>
       if r3 = [] then None
       else if last r3 \<noteq> CHR '')'' then None
       else
        (let es = map read_expr (split_on (CHR '','') (butlast r3));
             cs = split_on (CHR '','') (takeWhile (\<lambda>c. c \<noteq> CHR '')'') r2)
         in if None \<in> set es then None
            else if length cs \<noteq> length es then None
            else Some \<lparr>into = takeWhile (\<lambda>c. c \<noteq> CHR ''('') r1,
                       columns = cs, exprs = map the es\<rparr>))))"

text \<open>The driver adapts a \<open>str\<close> to a text literal and a \<open>float\<close> to a float
  literal.\<close>

fun adapt :: "py_value \<Rightarrow> sql_value" where
  "adapt (PyStr s) = SqlText s"
| "adapt (PyFloat x) = SqlFloat x"

text \<open>Placeholders take the parameters from left to right; \<open>NOW()\<close> is evaluated by
  the database. Too few or too many parameters are an error (\<open>None\<close>).\<close>

fun bind_exprs :: "sql_expr list \<Rightarrow> py_value list \<Rightarrow> nat \<Rightarrow> sql_value list option" where
  "bind_exprs [] [] now = Some []"
| "bind_exprs [] (p # ps) now = None"
| "bind_exprs (Now # es) ps now =
     (case bind_exprs es ps now of None \<Rightarrow> None | Some vs \<Rightarrow> Some (SqlTimestamp now # vs))"
| "bind_exprs (Placeholder # es) [] now = None"
| "bind_exprs (Placeholder # es) (p # ps) now =
     (case bind_exprs es ps now of None \<Rightarrow> None | Some vs \<Rightarrow> Some (adapt p # vs))"

text \<open>The table a statement writes to and the row it writes there, for the given
  parameters at the database time \<open>now\<close>; \<open>None\<close> when the database rejects the
  statement.\<close>

definition stored_row :: "string \<Rightarrow> py_value list \<Rightarrow> nat \<Rightarrow> (string \<times> row) option" where
  "stored_row sql params now =
    (case read_insert sql of
       None \<Rightarrow> None
     | Some st \<Rightarrow>
        (case bind_exprs (exprs st) params now of
           None \<Rightarrow> None
         | Some vs \<Rightarrow> Some (into st, zip (columns st) vs)))"

subsection \<open>The database and the driver\<close>

text \<open>
  A \<open>session\<close> is one connection made by \<open>psycopg2.connect\<close>: whether it has been
  closed, how many of its cursors are open, and the rows its open transaction has written
  and not yet committed. The \<open>world\<close> holds the committed rows of every table, every
  session opened so far (a connection is the index of its session), the database's clock,
  and a log of the calls made to \<open>connect\<close> and \<open>execute\<close>. Only explicit calls change
  a session: the interpreter's reclamation of unreferenced objects is not part of the
  model.
\<close>

record session =
  closed :: bool
  open_cursors :: nat
  pending :: "(string \<times> row) list"

record world =
  tables :: "string \<Rightarrow> row list"
  sessions :: "session list"
  db_clock :: nat
  connect_log :: "(string \<times> string \<times> string \<times> string) list"
  execute_log :: "(string \<times> py_value list) list"

text \<open>
  What the code cannot determine is supplied from outside: the values the random
  generator returns during one call of the handler (\<open>uuid.uuid4()\<close> as text, the index
  \<open>_randbelow(3)\<close> that \<open>random.choice\<close> draws, and the 53 random bits \<open>n\<close> from
  which \<open>random.random()\<close> makes the double \<open>n / 2^53\<close>), and whether the database
  makes \<open>connect\<close>, \<open>execute\<close> or the commit raise.
\<close>

record scenario =
  uuid4 :: string
  randbelow :: nat
  random53 :: nat
  connect_fault :: "error option"
  execute_fault :: "error option"
  commit_fault :: "error option"

definition update_session :: "nat \<Rightarrow> (session \<Rightarrow> session) \<Rightarrow> world \<Rightarrow> world" where
  "update_session c f w = w\<lparr>sessions := (sessions w)[c := f (sessions w ! c)]\<rparr>"

text \<open>\<open>psycopg2.connect(user=, password=, dbname=, host=)\<close>: a new open session, or the
  database's error.\<close>

definition psycopg2_connect ::
  "string \<Rightarrow> string \<Rightarrow> string \<Rightarrow> string \<Rightarrow> scenario \<Rightarrow> world \<Rightarrow> (error + nat) \<times> world" where
  "psycopg2_connect user password dbname host sc w =
    (let w1 = w\<lparr>connect_log := connect_log w @ [(user, password, dbname, host)]\<rparr> in
     case connect_fault sc of
       Some e \<Rightarrow> (Inl e, w1)
     | None \<Rightarrow>
        (Inr (length (sessions w1)),
         w1\<lparr>sessions := sessions w1 @ [\<lparr>closed = False, open_cursors = 0, pending = []\<rparr>]\<rparr>))"

text \<open>\<open>conn.cursor()\<close> and the cursor's \<open>__exit__\<close>, which closes it. A cursor is
  named by its connection.\<close>

definition connection_cursor :: "nat \<Rightarrow> world \<Rightarrow> nat \<times> world" where
  "connection_cursor c w = (c, update_session c (\<lambda>s. s\<lparr>open_cursors := open_cursors s + 1\<rparr>) w)"

definition cursor_exit :: "nat \<Rightarrow> world \<Rightarrow> world" where
  "cursor_exit c w = update_session c (\<lambda>s. s\<lparr>open_cursors := open_cursors s - 1\<rparr>) w"

text \<open>\<open>cur.execute(sql, params)\<close>: the row is written inside the session's transaction
  and is not visible in the table before the commit.\<close>

definition cursor_execute ::
  "nat \<Rightarrow> string \<Rightarrow> py_value list \<Rightarrow> scenario \<Rightarrow> world \<Rightarrow> (error + unit) \<times> world" where
  "cursor_execute c sql params sc w =
    (let w1 = w\<lparr>execute_log := execute_log w @ [(sql, params)]\<rparr> in
     case execute_fault sc of
       Some e \<Rightarrow> (Inl e, w1)
     | None \<Rightarrow>
    (case stored_row sql params (db_clock w1) of
       None \<Rightarrow> (Inl ProgrammingError, w1)
     | Some tr \<Rightarrow> (Inr (), update_session c (\<lambda>s. s\<lparr>pending := pending s @ [tr]\<rparr>) w1)))"

definition rollback :: "nat \<Rightarrow> world \<Rightarrow> world" where
  "rollback c w = update_session c (\<lambda>s. s\<lparr>pending := []\<rparr>) w"

fun apply_pending :: "(string \<times> row) list \<Rightarrow> (string \<Rightarrow> row list) \<Rightarrow> (string \<Rightarrow> row list)" where
  "apply_pending [] t = t"
| "apply_pending ((name, r) # ps) t = apply_pending ps (t(name := t name @ [r]))"

definition commit :: "nat \<Rightarrow> world \<Rightarrow> world" where
  "commit c w =
     update_session c (\<lambda>s. s\<lparr>pending := []\<rparr>)
       (w\<lparr>tables := apply_pending (pending (sessions w ! c)) (tables w)\<rparr>)"

text \<open>
  The \<open>__exit__\<close> of a psycopg2 connection, run when its \<open>with\<close> block is left with the
  block's outcome \<open>r\<close>: it commits the transaction when the block ended normally and
  rolls it back when the block raised, and lets the exception pass. It ends the
  transaction only: it does not close the connection. A commit that raises has committed
  nothing.
\<close>

definition connection_exit ::
  "nat \<Rightarrow> error + unit \<Rightarrow> scenario \<Rightarrow> world \<Rightarrow> (error + unit) \<times> world" where
  "connection_exit c r sc w =
    (case r of
       Inl e \<Rightarrow> (Inl e, rollback c w)
     | Inr u \<Rightarrow>
        (case commit_fault sc of
           Some e \<Rightarrow> (Inl e, rollback c w)
         | None \<Rightarrow> (Inr u, commit c w)))"

subsection \<open>The library functions the handler calls\<close>

text \<open>\<open>random.choice(seq)\<close> is \<open>seq[_randbelow(len(seq))]\<close>.\<close>

definition choice :: "'a list \<Rightarrow> nat \<Rightarrow> 'a" where
  "choice seq i = seq ! i"

text \<open>
  Double arithmetic. A finite double is \<open>m * 2^(e - 52)\<close> for integers \<open>m\<close> and
  \<open>e\<close> with \<open>- 1022 \<le> e \<le> 1023\<close> and \<open>|m| < 2^53\<close>. Every arithmetic
  operation on doubles returns the exact result rounded to the nearest double, a tie
  going to the even \<open>m\<close>: \<open>fl\<close>. The exponent of a number is found by searching
  down from the largest one; a number below \<open>2^(- 1022)\<close> keeps the exponent
  \<open>- 1022\<close> (the subnormal doubles). Infinities are not modelled: no number of this
  module exceeds 1000, and the largest double is above \<open>10^308\<close>.
\<close>

definition pow2 :: "int \<Rightarrow> rat" where
  "pow2 e = (if 0 \<le> e then 2 ^ nat e else 1 / 2 ^ nat (- e))"

fun find_exp :: "nat \<Rightarrow> int \<Rightarrow> rat \<Rightarrow> int" where
  "find_exp 0 e x = e"
| "find_exp (Suc n) e x = (if pow2 e \<le> x then e else find_exp n (e - 1) x)"

definition exponent :: "rat \<Rightarrow> int" where
  "exponent x = find_exp 2045 1023 x"

text \<open>\<open>round_half_even y\<close> is the integer nearest to \<open>y\<close>, a tie going to the even
  one.\<close>

definition round_half_even :: "rat \<Rightarrow> int" where
  "round_half_even y =
    (let f = \<lfloor>y\<rfloor>; d = y - of_int f in
     if d < 1 / 2 then f else if 1 / 2 < d then f + 1 else if even f then f else f + 1)"

text \<open>Rounding to the doubles of exponent \<open>e\<close>, which are the multiples of
  \<open>2^(e - 52)\<close>.\<close>

definition fl_at :: "int \<Rightarrow> rat \<Rightarrow> rat" where
  "fl_at e x = of_int (round_half_even (x / pow2 (e - 52))) * pow2 (e - 52)"

definition fl :: "rat \<Rightarrow> rat" where
  "fl x = (if x < 0 then - fl_at (exponent (- x)) (- x) else fl_at (exponent x) x)"

text \<open>\<open>random.random()\<close> returns \<open>(a * 2^26 + b) / 2^53\<close> for 27 random bits
  \<open>a\<close> and 26 random bits \<open>b\<close>: the double \<open>n / 2^53\<close> for the 53-bit number
  \<open>n\<close>, computed without rounding.\<close>

definition random_random :: "scenario \<Rightarrow> rat" where
  "random_random sc = of_nat (random53 sc) / 2 ^ 53"

text \<open>\<open>random.uniform(a, b)\<close> is \<open>a + (b - a) * self.random()\<close>. Called with the
  integers 60 and 100, the difference is exact integer arithmetic; the product with the
  double and the sum are double operations, each rounded.\<close>

definition uniform :: "int \<Rightarrow> int \<Rightarrow> rat \<Rightarrow> rat" where
  "uniform a b u = fl (of_int a + fl (of_int (b - a) * u))"

text \<open>\<open>round(x, n)\<close> of a double, for \<open>n \<ge> 0\<close>: the exact value of \<open>x\<close> is
  rounded to the nearest decimal with \<open>n\<close> digits after the point, a tie going to the
  even last digit, and the result is the double nearest to that decimal.\<close>

definition py_round :: "rat \<Rightarrow> nat \<Rightarrow> rat" where
  "py_round x n = fl (of_int (round_half_even (x * 10 ^ n)) / 10 ^ n)"

text \<open>\<open>json.dumps\<close> of a dictionary from strings to strings, with the default
  separators. Of the characters a string can hold, the quote and the backslash are
  escaped; the strings of this module hold no other character that needs it.\<close>

fun json_escape :: "string \<Rightarrow> string" where
  "json_escape [] = []"
| "json_escape (c # cs) =
     (if c = CHR 0x22 then CHR 0x5C # CHR 0x22 # json_escape cs
      else if c = CHR 0x5C then CHR 0x5C # CHR 0x5C # json_escape cs
      else c # json_escape cs)"

definition json_string :: "string \<Rightarrow> string" where
  "json_string s = CHR 0x22 # json_escape s @ [CHR 0x22]"

fun join :: "string \<Rightarrow> string list \<Rightarrow> string" where
  "join sep [] = []"
| "join sep [x] = x"
| "join sep (x # y # ys) = x @ sep @ join sep (y # ys)"

definition json_dumps :: "(string \<times> string) list \<Rightarrow> string" where
  "json_dumps d =
     ''{'' @ join '', '' (map (\<lambda>(k, v). json_string k @ '': '' @ json_string v) d) @ ''}''"

subsection \<open>The handlers (lines 19--43)\<close>

text \<open>The tuple of parameters built on lines 24--33.\<close>

definition insert_params :: "scenario \<Rightarrow> py_value list" where
  "insert_params sc =
     [PyStr (uuid4 sc),
      PyStr (choice [''P001'', ''P002'', ''P003''] (randbelow sc)),
      PyStr ''8867-4'',
      PyStr ''Heart rate'',
      PyFloat (py_round (uniform 60 100 (random_random sc)) 1),
      PyStr ''beats/min'',
      PyStr ''synthetic'',
      PyStr (json_dumps [(''note'', ''fastapi demo'')])]"

text \<open>
  \<open>insert_row\<close>: the two nested \<open>with\<close> blocks. When \<open>connect\<close> raises nothing is
  entered. Otherwise the cursor's block runs \<open>execute\<close> and closes the cursor however
  it ends, and the connection's \<open>__exit__\<close> receives the outcome. No \<open>except\<close>
  clause exists, so an exception leaves the function.
\<close>

definition insert_row :: "config \<Rightarrow> scenario \<Rightarrow> world \<Rightarrow> (error + unit) \<times> world" where
  "insert_row cfg sc w =
    (case psycopg2_connect (cfg_user cfg) (cfg_password cfg) (cfg_dbname cfg) (cfg_host cfg)
            sc w of
       (Inl e, w1) \<Rightarrow> (Inl e, w1)
     | (Inr conn, w1) \<Rightarrow>
        (let (cur, w2) = connection_cursor conn w1;
             (r, w3) = cursor_execute cur SQL_QUERY (insert_params sc) sc w2;
             w4 = cursor_exit cur w3
         in connection_exit conn r sc w4))"

definition health :: body where
  "health = [(''status'', ''ok'')]"

definition ingest :: "config \<Rightarrow> scenario \<Rightarrow> world \<Rightarrow> (error + body) \<times> world" where
  "ingest cfg sc w =
    (case insert_row cfg sc w of
       (Inl e, w1) \<Rightarrow> (Inl e, w1)
     | (Inr u, w1) \<Rightarrow> (Inr [(''result'', ''inserted'')], w1))"

subsection \<open>Calling a route of the loaded module\<close>

definition config_of :: "module_ns \<Rightarrow> config option" where
  "config_of ns =
    (case (DB_USER ns, DB_PASS ns, DB_NAME ns, DB_HOST ns) of
       (Some u, Some p, Some n, Some h) \<Rightarrow>
         Some \<lparr>cfg_user = u, cfg_password = p, cfg_dbname = n, cfg_host = h\<rparr>
     | _ \<Rightarrow> None)"

fun find_route ::
  "(http_method \<times> string \<times> handler) list \<Rightarrow> http_method \<Rightarrow> string \<Rightarrow> handler option" where
  "find_route [] m p = None"
| "find_route ((m', p', h) # rs) m p = (if m' = m \<and> p' = p then Some h else find_route rs m p)"

text \<open>A request to a route of the application runs the handler registered for it;
  \<open>None\<close> when the module has not loaded or no handler is registered for the route.\<close>

definition call_route ::
  "environ \<Rightarrow> http_method \<Rightarrow> string \<Rightarrow> scenario \<Rightarrow> world \<Rightarrow> ((error + body) \<times> world) option" where
  "call_route env m p sc w =
    (case startup env of
       Inl e \<Rightarrow> None
     | Inr ns \<Rightarrow>
    (case config_of ns of
       None \<Rightarrow> None
     | Some cfg \<Rightarrow>
    (case find_route (routes ns) m p of
       None \<Rightarrow> None
     | Some Health \<Rightarrow> Some (Inr health, w)
     | Some Ingest \<Rightarrow> Some (ingest cfg sc w))))"

subsection \<open>Concrete inputs\<close>

text \<open>An environment with every variable set, one without the password, a database
  with no rows and no sessions, and scenarios: no fault, a constraint violation in
  \<open>execute\<close>, a refused connection.\<close>

definition demo_environ :: environ where
  "demo_environ =
     [''DB_USER'' \<mapsto> ''app'', ''DB_PASS'' \<mapsto> ''secret'', ''DB_NAME'' \<mapsto> ''vitals'',
      ''INSTANCE_CONNECTION_NAME'' \<mapsto> ''proj:region:inst'']"

definition demo_environ_no_pass :: environ where
  "demo_environ_no_pass =
     [''DB_USER'' \<mapsto> ''app'', ''DB_NAME'' \<mapsto> ''vitals'',
      ''INSTANCE_CONNECTION_NAME'' \<mapsto> ''proj:region:inst'']"

definition demo_config :: config where
  "demo_config =
     \<lparr>cfg_user = ''app'', cfg_password = ''secret'', cfg_dbname = ''vitals'',
      cfg_host = ''/cloudsql/proj:region:inst''\<rparr>"

definition demo_world :: world where
  "demo_world =
     \<lparr>tables = (\<lambda>t. []), sessions = [], db_clock = 7, connect_log = [], execute_log = []\<rparr>"

definition demo_scenario :: scenario where
  "demo_scenario =
     \<lparr>uuid4 = ''123e4567-e89b-42d3-a456-426614174000'', randbelow = 1,
      random53 = 3002399751580331,
      connect_fault = None, execute_fault = None, commit_fault = None\<rparr>"

definition constraint_violation :: scenario where
  "constraint_violation = demo_scenario\<lparr>execute_fault := Some IntegrityError\<rparr>"

definition connection_refused :: scenario where
  "connection_refused = demo_scenario\<lparr>connect_fault := Some OperationalError\<rparr>"

section \<open>Properties\<close>

subsection \<open>The statement and the paths of \<open>insert_row\<close>\<close>

lemma read_SQL_QUERY:
  "read_insert SQL_QUERY =
     Some \<lparr>into = ''public.vitals_events'',
           columns = [''event_id'', ''patient_id'', ''loinc_code'', ''code_display'',
                      ''value_num'', ''unit'', ''effective_ts'', ''source'', ''raw''],
           exprs = [Placeholder, Placeholder, Placeholder, Placeholder, Placeholder,
                    Placeholder, Now, Placeholder, Placeholder]\<rparr>"
  by (simp add: read_insert_def SQL_QUERY_def is_space_def read_expr_def Let_def)

lemma stored_row_SQL_QUERY:
  "stored_row SQL_QUERY [p0, p1, p2, p3, p4, p5, p6, p7] now =
     Some (''public.vitals_events'',
       [(''event_id'', adapt p0), (''patient_id'', adapt p1), (''loinc_code'', adapt p2),
        (''code_display'', adapt p3), (''value_num'', adapt p4), (''unit'', adapt p5),
        (''effective_ts'', SqlTimestamp now), (''source'', adapt p6), (''raw'', adapt p7)])"
  by (simp add: stored_row_def read_SQL_QUERY)

lemma stored_row_insert_params:
  "stored_row SQL_QUERY (insert_params sc) now =
     Some (''public.vitals_events'',
       [(''event_id'', SqlText (uuid4 sc)),
        (''patient_id'', SqlText (choice [''P001'', ''P002'', ''P003''] (randbelow sc))),
        (''loinc_code'', SqlText ''8867-4''),
        (''code_display'', SqlText ''Heart rate''),
        (''value_num'', SqlFloat (py_round (uniform 60 100 (random_random sc)) 1)),
        (''unit'', SqlText ''beats/min''),
        (''effective_ts'', SqlTimestamp now),
        (''source'', SqlText ''synthetic''),
        (''raw'', SqlText (json_dumps [(''note'', ''fastapi demo'')]))])"
  unfolding insert_params_def by (simp only: stored_row_SQL_QUERY adapt.simps)

lemma insert_row_connect_fails:
  "connect_fault sc = Some e \<Longrightarrow>
   insert_row cfg sc w =
     (Inl e, w\<lparr>connect_log := connect_log w @
        [(cfg_user cfg, cfg_password cfg, cfg_dbname cfg, cfg_host cfg)]\<rparr>)"
  by (simp add: insert_row_def psycopg2_connect_def)

lemma insert_row_execute_fails:
  "connect_fault sc = None \<Longrightarrow> execute_fault sc = Some e \<Longrightarrow>
   insert_row cfg sc w =
     (Inl e, w\<lparr>connect_log := connect_log w @
                  [(cfg_user cfg, cfg_password cfg, cfg_dbname cfg, cfg_host cfg)],
               sessions := sessions w @ [\<lparr>closed = False, open_cursors = 0, pending = []\<rparr>],
               execute_log := execute_log w @ [(SQL_QUERY, insert_params sc)]\<rparr>)"
  by (simp add: insert_row_def psycopg2_connect_def connection_cursor_def cursor_execute_def
      cursor_exit_def connection_exit_def rollback_def update_session_def Let_def)

lemma insert_row_commit_fails:
  "connect_fault sc = None \<Longrightarrow> execute_fault sc = None \<Longrightarrow> commit_fault sc = Some e \<Longrightarrow>
   insert_row cfg sc w =
     (Inl e, w\<lparr>connect_log := connect_log w @
                  [(cfg_user cfg, cfg_password cfg, cfg_dbname cfg, cfg_host cfg)],
               sessions := sessions w @ [\<lparr>closed = False, open_cursors = 0, pending = []\<rparr>],
               execute_log := execute_log w @ [(SQL_QUERY, insert_params sc)]\<rparr>)"
  by (simp add: insert_row_def psycopg2_connect_def connection_cursor_def cursor_execute_def
      cursor_exit_def connection_exit_def rollback_def update_session_def Let_def
      stored_row_insert_params)

lemma insert_row_succeeds:
  "connect_fault sc = None \<Longrightarrow> execute_fault sc = None \<Longrightarrow> commit_fault sc = None \<Longrightarrow>
   insert_row cfg sc w =
     (Inr (), w\<lparr>connect_log := connect_log w @
                  [(cfg_user cfg, cfg_password cfg, cfg_dbname cfg, cfg_host cfg)],
               sessions := sessions w @ [\<lparr>closed = False, open_cursors = 0, pending = []\<rparr>],
               execute_log := execute_log w @ [(SQL_QUERY, insert_params sc)],
               tables := (tables w)(''public.vitals_events'' :=
                  tables w ''public.vitals_events'' @
       [[(''event_id'', SqlText (uuid4 sc)),
        (''patient_id'', SqlText (choice [''P001'', ''P002'', ''P003''] (randbelow sc))),
        (''loinc_code'', SqlText ''8867-4''),
        (''code_display'', SqlText ''Heart rate''),
        (''value_num'', SqlFloat (py_round (uniform 60 100 (random_random sc)) 1)),
        (''unit'', SqlText ''beats/min''),
        (''effective_ts'', SqlTimestamp (db_clock w)),
        (''source'', SqlText ''synthetic''),
        (''raw'', SqlText (json_dumps [(''note'', ''fastapi demo'')]))]])\<rparr>)"
  by (simp add: insert_row_def psycopg2_connect_def connection_cursor_def cursor_execute_def
      cursor_exit_def connection_exit_def commit_def update_session_def Let_def
      stored_row_insert_params)

subsection \<open>Startup and the health check\<close>

lemma first_missing_None:
  "first_missing env required_vars = None \<longleftrightarrow>
   env ''DB_USER'' \<noteq> None \<and> env ''DB_PASS'' \<noteq> None \<and> env ''DB_NAME'' \<noteq> None \<and>
   env ''INSTANCE_CONNECTION_NAME'' \<noteq> None"
  by (simp add: first_missing_def required_vars_def split: list.splits)

lemma first_missing_Some:
  "first_missing env required_vars = Some k \<Longrightarrow> k \<in> set required_vars \<and> env k = None"
proof -
  assume a: "first_missing env required_vars = Some k"
  then obtain ks where "filter (\<lambda>k. env k = None) required_vars = k # ks"
    by (auto simp: first_missing_def split: list.splits)
  then have "k \<in> set (filter (\<lambda>k. env k = None) required_vars)" by simp
  then show ?thesis by simp
qed

lemma load_module_missing:
  "first_missing env required_vars = Some k \<Longrightarrow>
   snd (load_module env) = Some (KeyError k) \<and> routes (fst (load_module env)) = []"
  by (auto simp: first_missing_def required_vars_def load_module_def environ_get_def fresh_ns_def
      split: if_splits option.splits)

lemma load_module_complete:
  "first_missing env required_vars = None \<Longrightarrow>
   load_module env =
     (\<lparr>DB_USER = env ''DB_USER'', DB_PASS = env ''DB_PASS'', DB_NAME = env ''DB_NAME'',
       DB_HOST = Some (''/cloudsql/'' @ the (env ''INSTANCE_CONNECTION_NAME'')),
       routes = [(GET, ''/'', Health), (POST, ''/ingest'', Ingest)]\<rparr>, None)"
  by (auto simp: first_missing_None load_module_def environ_get_def fresh_ns_def)

text \<open>
  Claim C8. If one of the four required environment variables is not set, loading the
  module raises \<open>KeyError\<close> for the first one missing, at a point where no route has
  been registered, and no route of the application can be called; if all four are set,
  loading succeeds with the four globals bound and both routes registered. A variable is
  missing exactly when loading fails.
\<close>

theorem startup_needs_every_variable:
  "(\<forall>k. first_missing env required_vars = Some k \<longrightarrow>
      k \<in> set required_vars \<and> env k = None \<and>
      snd (load_module env) = Some (KeyError k) \<and>
      routes (fst (load_module env)) = [] \<and>
      startup env = Inl (KeyError k) \<and>
      (\<forall>m p sc w. call_route env m p sc w = None)) \<and>
   (first_missing env required_vars = None \<longrightarrow>
      startup env =
        Inr \<lparr>DB_USER = env ''DB_USER'', DB_PASS = env ''DB_PASS'', DB_NAME = env ''DB_NAME'',
             DB_HOST = Some (''/cloudsql/'' @ the (env ''INSTANCE_CONNECTION_NAME'')),
             routes = [(GET, ''/'', Health), (POST, ''/ingest'', Ingest)]\<rparr>) \<and>
   ((\<exists>k \<in> set required_vars. env k = None) \<longleftrightarrow> first_missing env required_vars \<noteq> None)"
proof (intro conjI allI impI)
  fix k assume a: "first_missing env required_vars = Some k"
  from first_missing_Some[OF a] show "k \<in> set required_vars" and "env k = None" by simp_all
  from load_module_missing[OF a]
  show l: "snd (load_module env) = Some (KeyError k)" and "routes (fst (load_module env)) = []"
    by simp_all
  from l show s: "startup env = Inl (KeyError k)"
    by (cases "load_module env") (simp add: startup_def)
  fix m p sc w
  from s show "call_route env m p sc w = None" by (simp add: call_route_def)
next
  assume "first_missing env required_vars = None"
  from load_module_complete[OF this] show "startup env =
        Inr \<lparr>DB_USER = env ''DB_USER'', DB_PASS = env ''DB_PASS'', DB_NAME = env ''DB_NAME'',
             DB_HOST = Some (''/cloudsql/'' @ the (env ''INSTANCE_CONNECTION_NAME'')),
             routes = [(GET, ''/'', Health), (POST, ''/ingest'', Ingest)]\<rparr>"
    by (simp add: startup_def)
next
  show "(\<exists>k \<in> set required_vars. env k = None) \<longleftrightarrow> first_missing env required_vars \<noteq> None"
  proof -
    have s: "set required_vars = {''DB_USER'', ''DB_PASS'', ''DB_NAME'', ''INSTANCE_CONNECTION_NAME''}"
      by (simp add: required_vars_def)
    show ?thesis unfolding first_missing_None s by auto
  qed
qed

lemma demo_no_pass_missing: "first_missing demo_environ_no_pass required_vars = Some ''DB_PASS''"
  by (simp add: first_missing_def required_vars_def demo_environ_no_pass_def)

lemma demo_complete: "first_missing demo_environ required_vars = None"
  by (simp add: first_missing_def required_vars_def demo_environ_def)

theorem startup_needs_every_variable_witness:
  "first_missing demo_environ_no_pass required_vars = Some ''DB_PASS'' \<and>
   startup demo_environ_no_pass = Inl (KeyError ''DB_PASS'') \<and>
   routes (fst (load_module demo_environ_no_pass)) = [] \<and>
   call_route demo_environ_no_pass POST ''/ingest'' demo_scenario demo_world = None \<and>
   first_missing demo_environ required_vars = None \<and>
   startup demo_environ =
     Inr \<lparr>DB_USER = Some ''app'', DB_PASS = Some ''secret'', DB_NAME = Some ''vitals'',
          DB_HOST = Some ''/cloudsql/proj:region:inst'',
          routes = [(GET, ''/'', Health), (POST, ''/ingest'', Ingest)]\<rparr>"
proof -
  note t1 = startup_needs_every_variable[of demo_environ_no_pass]
  note t2 = startup_needs_every_variable[of demo_environ]
  from t1 demo_no_pass_missing
  have a: "startup demo_environ_no_pass = Inl (KeyError ''DB_PASS'')"
    and b: "routes (fst (load_module demo_environ_no_pass)) = []"
    and c: "call_route demo_environ_no_pass POST ''/ingest'' demo_scenario demo_world = None"
    by blast+
  from t2 demo_complete
  have d: "startup demo_environ =
        Inr \<lparr>DB_USER = demo_environ ''DB_USER'', DB_PASS = demo_environ ''DB_PASS'',
             DB_NAME = demo_environ ''DB_NAME'',
             DB_HOST = Some (''/cloudsql/'' @ the (demo_environ ''INSTANCE_CONNECTION_NAME'')),
             routes = [(GET, ''/'', Health), (POST, ''/ingest'', Ingest)]\<rparr>"
    by blast
  have e: "demo_environ ''DB_USER'' = Some ''app''" "demo_environ ''DB_PASS'' = Some ''secret''"
    "demo_environ ''DB_NAME'' = Some ''vitals''"
    "demo_environ ''INSTANCE_CONNECTION_NAME'' = Some ''proj:region:inst''"
    by (simp_all add: demo_environ_def)
  from a b c d e demo_no_pass_missing demo_complete show ?thesis by simp
qed

lemma startup_config:
  "startup env = Inr ns \<Longrightarrow>
   routes ns = [(GET, ''/'', Health), (POST, ''/ingest'', Ingest)] \<and> config_of ns \<noteq> None"
  by (auto simp: startup_def load_module_def environ_get_def fresh_ns_def config_of_def
      split: prod.splits option.splits)

text \<open>
  Claim C5. The handler of \<open>GET /\<close> returns exactly \<open>{"status": "ok"}\<close>; called
  through its route it returns that body and leaves the database, its sessions and the
  call logs as they were, whatever faults the database would raise (\<open>sc\<close>) and whatever
  earlier calls have left behind (\<open>w\<close>).
\<close>

theorem health_fixed_and_pure:
  "health = [(''status'', ''ok'')] \<and>
   (\<forall>ns. startup env = Inr ns \<longrightarrow>
      call_route env GET ''/'' sc w = Some (Inr [(''status'', ''ok'')], w))"
proof (intro conjI allI impI)
  show "health = [(''status'', ''ok'')]" by (simp add: health_def)
next
  fix ns assume a: "startup env = Inr ns"
  from startup_config[OF a] a
  show "call_route env GET ''/'' sc w = Some (Inr [(''status'', ''ok'')], w)"
    by (auto simp: call_route_def health_def)
qed

theorem health_fixed_and_pure_witness:
  "startup demo_environ \<noteq> Inl (KeyError ''DB_USER'') \<and>
   call_route demo_environ GET ''/'' connection_refused demo_world =
     Some (Inr [(''status'', ''ok'')], demo_world)"
proof -
  from load_module_complete[OF demo_complete] obtain ns where n: "startup demo_environ = Inr ns"
    by (simp add: startup_def)
  from health_fixed_and_pure[of demo_environ connection_refused demo_world] n
  show ?thesis by simp
qed

subsection \<open>The ingestion handler\<close>

lemma insert_row_result:
  "fst (insert_row cfg sc w) =
    (case connect_fault sc of
       Some e \<Rightarrow> Inl e
     | None \<Rightarrow>
        (case execute_fault sc of
           Some e \<Rightarrow> Inl e
         | None \<Rightarrow> (case commit_fault sc of Some e \<Rightarrow> Inl e | None \<Rightarrow> Inr ())))"
  by (simp add: insert_row_connect_fails insert_row_execute_fails insert_row_commit_fails
      insert_row_succeeds split: option.splits)

lemma ingest_fst:
  "fst (ingest cfg sc w) =
     (case fst (insert_row cfg sc w) of Inl e \<Rightarrow> Inl e | Inr u \<Rightarrow> Inr [(''result'', ''inserted'')])"
  by (simp add: ingest_def split: prod.splits sum.splits)

lemma ingest_snd: "snd (ingest cfg sc w) = snd (insert_row cfg sc w)"
  by (simp add: ingest_def split: prod.splits sum.splits)

lemma ingest_succeeds_iff:
  "(\<exists>b. fst (ingest cfg sc w) = Inr b) \<longleftrightarrow>
   connect_fault sc = None \<and> execute_fault sc = None \<and> commit_fault sc = None"
  by (auto simp: ingest_fst insert_row_result split: option.splits)

lemma ingest_tables_failure:
  "fst (ingest cfg sc w) = Inl e \<Longrightarrow> tables (snd (ingest cfg sc w)) = tables w"
  by (auto simp: ingest_fst ingest_snd insert_row_result insert_row_connect_fails
      insert_row_execute_fails insert_row_commit_fails split: option.splits)

lemma ingest_sessions:
  "sessions (snd (ingest cfg sc w)) =
     (if connect_fault sc = None
      then sessions w @ [\<lparr>closed = False, open_cursors = 0, pending = []\<rparr>] else sessions w)"
  by (cases "connect_fault sc"; cases "execute_fault sc"; cases "commit_fault sc")
     (simp_all add: ingest_snd insert_row_connect_fails insert_row_execute_fails
        insert_row_commit_fails insert_row_succeeds)

lemma ingest_connect_log:
  "connect_log (snd (ingest cfg sc w)) =
     connect_log w @ [(cfg_user cfg, cfg_password cfg, cfg_dbname cfg, cfg_host cfg)]"
  by (cases "connect_fault sc"; cases "execute_fault sc"; cases "commit_fault sc")
     (simp_all add: ingest_snd insert_row_connect_fails insert_row_execute_fails
        insert_row_commit_fails insert_row_succeeds)

lemma ingest_execute_log:
  "execute_log (snd (ingest cfg sc w)) =
     (if connect_fault sc = None
      then execute_log w @ [(SQL_QUERY, insert_params sc)] else execute_log w)"
  by (cases "connect_fault sc"; cases "execute_fault sc"; cases "commit_fault sc")
     (simp_all add: ingest_snd insert_row_connect_fails insert_row_execute_fails
        insert_row_commit_fails insert_row_succeeds)

lemma ingest_tables_success:
  assumes "fst (ingest cfg sc w) = Inr b"
  shows "b = [(''result'', ''inserted'')] \<and>
    tables (snd (ingest cfg sc w)) =
      (tables w)(''public.vitals_events'' :=
        tables w ''public.vitals_events'' @
       [[(''event_id'', SqlText (uuid4 sc)),
        (''patient_id'', SqlText (choice [''P001'', ''P002'', ''P003''] (randbelow sc))),
        (''loinc_code'', SqlText ''8867-4''),
        (''code_display'', SqlText ''Heart rate''),
        (''value_num'', SqlFloat (py_round (uniform 60 100 (random_random sc)) 1)),
        (''unit'', SqlText ''beats/min''),
        (''effective_ts'', SqlTimestamp (db_clock w)),
        (''source'', SqlText ''synthetic''),
        (''raw'', SqlText (json_dumps [(''note'', ''fastapi demo'')]))]])"
proof -
  from assms have f: "connect_fault sc = None" "execute_fault sc = None" "commit_fault sc = None"
    using ingest_succeeds_iff[of cfg sc w] by blast+
  from assms f have "b = [(''result'', ''inserted'')]"
    by (simp add: ingest_fst insert_row_result)
  moreover from f have "tables (snd (ingest cfg sc w)) =
      (tables w)(''public.vitals_events'' :=
        tables w ''public.vitals_events'' @
       [[(''event_id'', SqlText (uuid4 sc)),
        (''patient_id'', SqlText (choice [''P001'', ''P002'', ''P003''] (randbelow sc))),
        (''loinc_code'', SqlText ''8867-4''),
        (''code_display'', SqlText ''Heart rate''),
        (''value_num'', SqlFloat (py_round (uniform 60 100 (random_random sc)) 1)),
        (''unit'', SqlText ''beats/min''),
        (''effective_ts'', SqlTimestamp (db_clock w)),
        (''source'', SqlText ''synthetic''),
        (''raw'', SqlText (json_dumps [(''note'', ''fastapi demo'')]))]])"
    by (simp add: ingest_snd insert_row_succeeds)
  ultimately show ?thesis by simp
qed

lemma demo_faults:
  "connect_fault demo_scenario = None" "execute_fault demo_scenario = None"
  "commit_fault demo_scenario = None"
  "connect_fault constraint_violation = None"
  "execute_fault constraint_violation = Some IntegrityError"
  "connect_fault connection_refused = Some OperationalError"
  by (simp_all add: demo_scenario_def constraint_violation_def connection_refused_def)

lemma demo_ingest_succeeds:
  "fst (ingest demo_config demo_scenario demo_world) = Inr [(''result'', ''inserted'')]"
  by (simp add: ingest_fst insert_row_result demo_faults)

lemma demo_world_simps:
  "tables demo_world t = []" "sessions demo_world = []" "db_clock demo_world = 7"
  "connect_log demo_world = []" "execute_log demo_world = []"
  by (simp_all add: demo_world_def)

text \<open>
  Claim C2. A call of \<open>POST /ingest\<close> either succeeds and the committed rows differ
  from those before by exactly one new row of \<open>public.vitals_events\<close>, every other
  table being as before; or it fails with an error and the committed rows of every table
  are as before. Nothing lies between: a call that fails has committed nothing.
\<close>

theorem ingest_is_atomic:
  "(\<exists>b r. fst (ingest cfg sc w) = Inr b \<and>
          tables (snd (ingest cfg sc w)) =
            (tables w)(''public.vitals_events'' := tables w ''public.vitals_events'' @ [r])) \<or>
   (\<exists>e. fst (ingest cfg sc w) = Inl e \<and> tables (snd (ingest cfg sc w)) = tables w)"
proof (cases "fst (ingest cfg sc w)")
  case (Inl e)
  with ingest_tables_failure[OF Inl] show ?thesis by blast
next
  case (Inr b)
  with ingest_tables_success[OF Inr] show ?thesis by blast
qed

theorem ingest_is_atomic_witness:
  "fst (ingest demo_config demo_scenario demo_world) = Inr [(''result'', ''inserted'')] \<and>
   length (tables (snd (ingest demo_config demo_scenario demo_world)) ''public.vitals_events'') = 1 \<and>
   fst (ingest demo_config constraint_violation demo_world) = Inl IntegrityError \<and>
   tables (snd (ingest demo_config constraint_violation demo_world)) = tables demo_world"
proof -
  have a: "fst (ingest demo_config demo_scenario demo_world) = Inr [(''result'', ''inserted'')]"
    by (rule demo_ingest_succeeds)
  have b: "fst (ingest demo_config constraint_violation demo_world) = Inl IntegrityError"
    by (simp add: ingest_fst insert_row_result demo_faults)
  from ingest_is_atomic[of demo_config demo_scenario demo_world] a
  obtain r where "tables (snd (ingest demo_config demo_scenario demo_world)) =
      (tables demo_world)(''public.vitals_events'' := tables demo_world ''public.vitals_events'' @ [r])"
    by auto
  then have c: "length (tables (snd (ingest demo_config demo_scenario demo_world)) ''public.vitals_events'') = 1"
    by (simp add: demo_world_simps)
  from ingest_is_atomic[of demo_config constraint_violation demo_world] b
  have d: "tables (snd (ingest demo_config constraint_violation demo_world)) = tables demo_world"
    by auto
  from a b c d show ?thesis by simp
qed

text \<open>
  Claim C3. When \<open>connect\<close> raises, or \<open>execute\<close>, or the commit at the end of the
  block, that error is what \<open>insert_row\<close> and \<open>ingest\<close> end with: neither catches
  it. In every call \<open>connect\<close> is called exactly once, and \<open>execute\<close> at most once
  (once when the connection was made, not at all when it was refused), so nothing is
  tried again.
\<close>

theorem ingest_errors_propagate_single_attempt:
  "(connect_fault sc = Some e \<longrightarrow>
      fst (insert_row cfg sc w) = Inl e \<and> fst (ingest cfg sc w) = Inl e \<and>
      execute_log (snd (ingest cfg sc w)) = execute_log w) \<and>
   (connect_fault sc = None \<and> execute_fault sc = Some e \<longrightarrow>
      fst (insert_row cfg sc w) = Inl e \<and> fst (ingest cfg sc w) = Inl e \<and>
      execute_log (snd (ingest cfg sc w)) = execute_log w @ [(SQL_QUERY, insert_params sc)]) \<and>
   (connect_fault sc = None \<and> execute_fault sc = None \<and> commit_fault sc = Some e \<longrightarrow>
      fst (insert_row cfg sc w) = Inl e \<and> fst (ingest cfg sc w) = Inl e) \<and>
   connect_log (snd (ingest cfg sc w)) =
     connect_log w @ [(cfg_user cfg, cfg_password cfg, cfg_dbname cfg, cfg_host cfg)] \<and>
   length (execute_log (snd (ingest cfg sc w))) \<le> length (execute_log w) + 1"
  by (simp add: ingest_fst insert_row_result ingest_connect_log ingest_execute_log)

theorem ingest_errors_propagate_single_attempt_witness:
  "fst (ingest demo_config connection_refused demo_world) = Inl OperationalError \<and>
   length (connect_log (snd (ingest demo_config connection_refused demo_world))) = 1 \<and>
   execute_log (snd (ingest demo_config connection_refused demo_world)) = [] \<and>
   fst (ingest demo_config constraint_violation demo_world) = Inl IntegrityError \<and>
   length (connect_log (snd (ingest demo_config constraint_violation demo_world))) = 1 \<and>
   length (execute_log (snd (ingest demo_config constraint_violation demo_world))) = 1"
  using ingest_errors_propagate_single_attempt
          [of connection_refused OperationalError demo_config demo_world]
        ingest_errors_propagate_single_attempt
          [of constraint_violation IntegrityError demo_config demo_world]
  by (simp add: demo_faults demo_world_simps)

text \<open>
  Claim C4. A call of \<open>POST /ingest\<close> that succeeds returns the body
  \<open>{"result": "inserted"}\<close>, has committed exactly one new row to
  \<open>public.vitals_events\<close> and changed no other table, and has executed exactly one
  statement: \<open>SQL_QUERY\<close>, an insert into that table whose values are eight
  placeholders and \<open>NOW()\<close>, with a tuple of eight parameters.
\<close>

theorem ingest_success_one_row_one_statement:
  assumes "fst (ingest cfg sc w) = Inr b"
  shows "b = [(''result'', ''inserted'')] \<and>
    (\<exists>r. tables (snd (ingest cfg sc w)) =
       (tables w)(''public.vitals_events'' := tables w ''public.vitals_events'' @ [r])) \<and>
    execute_log (snd (ingest cfg sc w)) = execute_log w @ [(SQL_QUERY, insert_params sc)] \<and>
    map_option into (read_insert SQL_QUERY) = Some ''public.vitals_events'' \<and>
    map_option exprs (read_insert SQL_QUERY) =
      Some [Placeholder, Placeholder, Placeholder, Placeholder, Placeholder, Placeholder, Now,
            Placeholder, Placeholder] \<and>
    length (insert_params sc) = 8"
proof -
  from assms have f: "connect_fault sc = None"
    using ingest_succeeds_iff[of cfg sc w] by blast
  from ingest_tables_success[OF assms] f show ?thesis
    by (simp add: ingest_execute_log read_SQL_QUERY insert_params_def) blast
qed

theorem ingest_success_one_row_one_statement_witness:
  "fst (ingest demo_config demo_scenario demo_world) = Inr [(''result'', ''inserted'')] \<and>
   length (tables (snd (ingest demo_config demo_scenario demo_world)) ''public.vitals_events'') = 1 \<and>
   execute_log (snd (ingest demo_config demo_scenario demo_world)) =
     [(SQL_QUERY, insert_params demo_scenario)]"
proof -
  note t = ingest_success_one_row_one_statement[OF demo_ingest_succeeds]
  from t obtain r where "tables (snd (ingest demo_config demo_scenario demo_world)) =
      (tables demo_world)(''public.vitals_events'' := tables demo_world ''public.vitals_events'' @ [r])"
    by blast
  then have "length (tables (snd (ingest demo_config demo_scenario demo_world)) ''public.vitals_events'') = 1"
    by (simp add: demo_world_simps)
  with t demo_ingest_succeeds show ?thesis by (simp add: demo_world_simps)
qed

subsection \<open>The values of the inserted row\<close>

lemma choice_patient:
  "i < 3 \<Longrightarrow> choice [''P001'', ''P002'', ''P003''] i \<in> {''P001'', ''P002'', ''P003''}"
proof -
  assume "i < 3"
  then have "i = 0 \<or> i = 1 \<or> i = 2" by arith
  then show ?thesis by (auto simp: choice_def)
qed

text \<open>
  Claim C6. In every call of \<open>POST /ingest\<close> (the index drawn by \<open>random.choice\<close>
  being below the length of its list), the second parameter of the statement, which the
  statement binds to the column \<open>patient_id\<close>, is one of \<open>P001\<close>, \<open>P002\<close>,
  \<open>P003\<close>, and when the call succeeds the committed row holds that value in
  \<open>patient_id\<close>.
\<close>

theorem patient_id_is_one_of_three:
  assumes "randbelow sc < 3"
  shows "\<exists>p. (p = ''P001'' \<or> p = ''P002'' \<or> p = ''P003'') \<and>
     insert_params sc ! 1 = PyStr p \<and>
     (\<forall>cfg w b. fst (ingest cfg sc w) = Inr b \<longrightarrow>
        (\<exists>r. tables (snd (ingest cfg sc w)) ''public.vitals_events'' =
               tables w ''public.vitals_events'' @ [r] \<and>
             map_of r ''patient_id'' = Some (SqlText p)))"
proof -
  let ?p = "choice [''P001'', ''P002'', ''P003''] (randbelow sc)"
  from choice_patient[OF assms] have a: "?p = ''P001'' \<or> ?p = ''P002'' \<or> ?p = ''P003''" by simp
  have b: "insert_params sc ! 1 = PyStr ?p" by (simp add: insert_params_def)
  have c: "\<forall>cfg w b. fst (ingest cfg sc w) = Inr b \<longrightarrow>
        (\<exists>r. tables (snd (ingest cfg sc w)) ''public.vitals_events'' =
               tables w ''public.vitals_events'' @ [r] \<and>
             map_of r ''patient_id'' = Some (SqlText ?p))"
  proof (intro allI impI)
    fix cfg w b assume s: "fst (ingest cfg sc w) = Inr b"
    from ingest_tables_success[OF s] show "\<exists>r. tables (snd (ingest cfg sc w)) ''public.vitals_events'' =
               tables w ''public.vitals_events'' @ [r] \<and>
             map_of r ''patient_id'' = Some (SqlText ?p)" by simp
  qed
  from a b c show ?thesis by blast
qed

theorem patient_id_is_one_of_three_witness:
  "randbelow demo_scenario < 3 \<and>
   insert_params demo_scenario ! 1 = PyStr ''P002'' \<and>
   (\<exists>r. tables (snd (ingest demo_config demo_scenario demo_world)) ''public.vitals_events'' = [r] \<and>
        map_of r ''patient_id'' = Some (SqlText ''P002''))"
proof -
  have h: "randbelow demo_scenario < 3" by (simp add: demo_scenario_def)
  have q: "insert_params demo_scenario ! 1 = PyStr ''P002''"
    by (simp add: insert_params_def demo_scenario_def choice_def)
  from patient_id_is_one_of_three[OF h] q demo_ingest_succeeds
  have "\<exists>r. tables (snd (ingest demo_config demo_scenario demo_world)) ''public.vitals_events'' =
            tables demo_world ''public.vitals_events'' @ [r] \<and>
        map_of r ''patient_id'' = Some (SqlText ''P002'')"
    by (metis py_value.inject(1))
  with h q show ?thesis by (simp add: demo_world_simps)
qed

subsection \<open>Double arithmetic\<close>

lemma pow2_pos: "0 < pow2 e"
  by (simp add: pow2_def)

lemma pow2_Suc: "pow2 (e + 1) = 2 * pow2 e"
proof (cases "0 \<le> e")
  case True
  then show ?thesis by (simp add: pow2_def nat_add_distrib)
next
  case False
  then have e: "e < 0" by simp
  show ?thesis
  proof (cases "e = -1")
    case True
    then show ?thesis by (simp add: pow2_def)
  next
    case False
    with e have "e + 1 < 0" by simp
    moreover from e have "nat (- e) = Suc (nat (- (e + 1)))" by simp
    ultimately show ?thesis using e by (simp add: pow2_def)
  qed
qed

lemma pow2_mono_nat: "pow2 e \<le> pow2 (e + int n)"
proof (induction n)
  case 0
  then show ?case by simp
next
  case (Suc n)
  have "pow2 (e + int (Suc n)) = 2 * pow2 (e + int n)"
    using pow2_Suc[of "e + int n"] by (simp add: algebra_simps)
  with Suc pow2_pos[of "e + int n"] show ?case by simp
qed

lemma pow2_mono: "a \<le> b \<Longrightarrow> pow2 a \<le> pow2 b"
  using pow2_mono_nat[of a "nat (b - a)"] by simp

lemma pow2_less_exp: "pow2 a \<le> x \<Longrightarrow> x < pow2 b \<Longrightarrow> a < b"
proof (rule ccontr)
  assume a: "pow2 a \<le> x" "x < pow2 b" and "\<not> a < b"
  then have "pow2 b \<le> pow2 a" by (simp add: pow2_mono)
  with a show False by simp
qed

lemma find_exp_eq:
  "pow2 t \<le> x \<Longrightarrow> x < pow2 (t + 1) \<Longrightarrow> t \<le> e \<Longrightarrow> e - t \<le> int n \<Longrightarrow> find_exp n e x = t"
proof (induction n arbitrary: e)
  case 0
  then show ?case by simp
next
  case (Suc n)
  show ?case
  proof (cases "pow2 e \<le> x")
    case True
    from True Suc.prems(2) have "e < t + 1" by (rule pow2_less_exp)
    with Suc.prems(3) True show ?thesis by simp
  next
    case False
    with Suc.prems(1) have "e \<noteq> t" by auto
    with Suc.prems have "t \<le> e - 1" "e - 1 - t \<le> int n" by simp_all
    from Suc.IH[OF Suc.prems(1,2) this] False show ?thesis by simp
  qed
qed


lemma exponent_eq:
  "pow2 t \<le> x \<Longrightarrow> x < pow2 (t + 1) \<Longrightarrow> - 1022 \<le> t \<Longrightarrow> t \<le> 1023 \<Longrightarrow> exponent x = t"
  unfolding exponent_def by (rule find_exp_eq) (simp_all del: find_exp.simps)


lemma fl_eq_fl_at:
  "pow2 t \<le> x \<Longrightarrow> x < pow2 (t + 1) \<Longrightarrow> - 1022 \<le> t \<Longrightarrow> t \<le> 1023 \<Longrightarrow> fl x = fl_at t x"
proof -
  assume a: "pow2 t \<le> x" "x < pow2 (t + 1)" "- 1022 \<le> t" "t \<le> 1023"
  from a(1) pow2_pos[of t] have "\<not> x < 0" by simp
  with exponent_eq[OF a] show ?thesis by (simp add: fl_def)
qed







subsection \<open>The numeric value\<close>




lemma uniform_unfold: "uniform 60 100 u = fl (60 + fl (40 * u))"
  by (simp add: uniform_def)















text \<open>A draw that falls on a tie: with \<open>random()\<close> at \<open>14073748835533 / 2^51\<close> the
  exact sum \<open>60.25 + 2^-48\<close> lies halfway between two doubles and is rounded to
  \<open>60.25\<close>, which lies halfway between two tenths and is rounded to \<open>60.2\<close>.\<close>

lemma uniform_tie: "uniform 60 100 (14073748835533 / 2 ^ 51) = 241 / 4"
proof -
  have a: "fl (40 * (14073748835533 / 2 ^ 51)) = 70368744177665 / 281474976710656"
  proof -
    have "fl (40 * (14073748835533 / 2 ^ 51)) = fl_at (- 2) (40 * (14073748835533 / 2 ^ 51))"
      by (rule fl_eq_fl_at) (simp_all add: pow2_def)
    also have "\<dots> = 70368744177665 / 281474976710656" by code_simp
    finally show ?thesis .
  qed
  have b: "fl (60 + 70368744177665 / 281474976710656) = 241 / 4"
  proof -
    have "fl (60 + 70368744177665 / 281474976710656) =
          fl_at 5 (60 + 70368744177665 / 281474976710656)"
      by (rule fl_eq_fl_at) (simp_all add: pow2_def)
    also have "\<dots> = 241 / 4" by code_simp
    finally show ?thesis .
  qed
  show ?thesis by (simp only: uniform_unfold a b)
qed

lemma round_tie: "round_half_even (241 / 4 * 10) = 602"
  by code_simp

subsection \<open>The constants of the row\<close>

text \<open>
  Claim C9. In every call of \<open>POST /ingest\<close> the parameters for the observation code,
  its label, the unit and the source are the constants \<open>8867-4\<close>, \<open>Heart rate\<close>,
  \<open>beats/min\<close> and \<open>synthetic\<close>, whatever the random draws and the faults; the
  statement gives the column \<open>effective_ts\<close> the expression \<open>NOW()\<close> and no
  parameter; and when the call succeeds the committed row holds the four constants and,
  in \<open>effective_ts\<close>, the database's own time.
\<close>

theorem fixed_constants_and_database_timestamp:
  "insert_params sc ! 2 = PyStr ''8867-4'' \<and>
   insert_params sc ! 3 = PyStr ''Heart rate'' \<and>
   insert_params sc ! 5 = PyStr ''beats/min'' \<and>
   insert_params sc ! 6 = PyStr ''synthetic'' \<and>
   map_option (\<lambda>st. zip (columns st) (exprs st)) (read_insert SQL_QUERY) =
     Some [(''event_id'', Placeholder), (''patient_id'', Placeholder),
           (''loinc_code'', Placeholder), (''code_display'', Placeholder),
           (''value_num'', Placeholder), (''unit'', Placeholder),
           (''effective_ts'', Now), (''source'', Placeholder), (''raw'', Placeholder)] \<and>
   (\<forall>b. fst (ingest cfg sc w) = Inr b \<longrightarrow>
      (\<exists>r. tables (snd (ingest cfg sc w)) ''public.vitals_events'' =
             tables w ''public.vitals_events'' @ [r] \<and>
           map_of r ''loinc_code'' = Some (SqlText ''8867-4'') \<and>
           map_of r ''code_display'' = Some (SqlText ''Heart rate'') \<and>
           map_of r ''unit'' = Some (SqlText ''beats/min'') \<and>
           map_of r ''source'' = Some (SqlText ''synthetic'') \<and>
           map_of r ''effective_ts'' = Some (SqlTimestamp (db_clock w))))"
proof (intro conjI allI impI)
  fix b assume s: "fst (ingest cfg sc w) = Inr b"
  from ingest_tables_success[OF s]
  show "\<exists>r. tables (snd (ingest cfg sc w)) ''public.vitals_events'' =
             tables w ''public.vitals_events'' @ [r] \<and>
           map_of r ''loinc_code'' = Some (SqlText ''8867-4'') \<and>
           map_of r ''code_display'' = Some (SqlText ''Heart rate'') \<and>
           map_of r ''unit'' = Some (SqlText ''beats/min'') \<and>
           map_of r ''source'' = Some (SqlText ''synthetic'') \<and>
           map_of r ''effective_ts'' = Some (SqlTimestamp (db_clock w))"
    by simp
qed (simp_all add: insert_params_def read_SQL_QUERY)

theorem fixed_constants_and_database_timestamp_witness:
  "fst (ingest demo_config demo_scenario demo_world) = Inr [(''result'', ''inserted'')] \<and>
   (\<exists>r. tables (snd (ingest demo_config demo_scenario demo_world)) ''public.vitals_events'' = [r] \<and>
        map_of r ''loinc_code'' = Some (SqlText ''8867-4'') \<and>
        map_of r ''code_display'' = Some (SqlText ''Heart rate'') \<and>
        map_of r ''unit'' = Some (SqlText ''beats/min'') \<and>
        map_of r ''source'' = Some (SqlText ''synthetic'') \<and>
        map_of r ''effective_ts'' = Some (SqlTimestamp 7))"
  using fixed_constants_and_database_timestamp[of demo_scenario demo_config demo_world]
    demo_ingest_succeeds
  by (simp add: demo_world_simps)

lemma note_json: \<open>json_dumps [(''note'', ''fastapi demo'')] = ''{"note": "fastapi demo"}''\<close>
  by (simp add: json_dumps_def json_string_def)

text \<open>
  Claim C10. In every call of \<open>POST /ingest\<close> the parameter for the column \<open>raw\<close>
  is the string \<open>{"note": "fastapi demo"}\<close>, the serialization of the one-key
  dictionary, whatever the random draws, the faults and the state of the database; when
  the call succeeds the committed row holds that string in \<open>raw\<close>.
\<close>

theorem raw_is_the_fixed_note:
  \<open>insert_params sc ! 7 = PyStr ''{"note": "fastapi demo"}'' \<and>
   (\<forall>b. fst (ingest cfg sc w) = Inr b \<longrightarrow>
      (\<exists>r. tables (snd (ingest cfg sc w)) ''public.vitals_events'' =
             tables w ''public.vitals_events'' @ [r] \<and>
           map_of r ''raw'' = Some (SqlText ''{"note": "fastapi demo"}'')))\<close>
proof (intro conjI allI impI)
  show \<open>insert_params sc ! 7 = PyStr ''{"note": "fastapi demo"}''\<close>
    by (simp add: insert_params_def note_json)
next
  fix b assume s: "fst (ingest cfg sc w) = Inr b"
  from ingest_tables_success[OF s]
  show \<open>\<exists>r. tables (snd (ingest cfg sc w)) ''public.vitals_events'' =
             tables w ''public.vitals_events'' @ [r] \<and>
           map_of r ''raw'' = Some (SqlText ''{"note": "fastapi demo"}'')\<close>
    by (simp add: note_json)
qed

theorem raw_is_the_fixed_note_witness:
  \<open>fst (ingest demo_config demo_scenario demo_world) = Inr [(''result'', ''inserted'')] \<and>
   insert_params constraint_violation ! 7 = PyStr ''{"note": "fastapi demo"}'' \<and>
   (\<exists>r. tables (snd (ingest demo_config demo_scenario demo_world)) ''public.vitals_events'' = [r] \<and>
        map_of r ''raw'' = Some (SqlText ''{"note": "fastapi demo"}''))\<close>
  using raw_is_the_fixed_note[of demo_scenario demo_config demo_world]
    raw_is_the_fixed_note[of constraint_violation demo_config demo_world]
    demo_ingest_succeeds
  by (simp add: demo_world_simps)

subsection \<open>The connection after \<open>insert_row\<close>\<close>

lemma insert_row_sessions:
  "connect_fault sc = None \<Longrightarrow>
   sessions (snd (insert_row cfg sc w)) =
     sessions w @ [\<lparr>closed = False, open_cursors = 0, pending = []\<rparr>]"
  using ingest_sessions[of cfg sc w] by (simp add: ingest_snd)

text \<open>
  Claim C1 asks that the connection made by \<open>insert_row\<close> be closed on every path out
  of it. The \<open>with\<close> block of a psycopg2 connection ends the transaction, and nothing in
  \<open>insert_row\<close> calls \<open>close\<close>. On a database with no session, when \<open>execute\<close>
  raises a constraint violation, \<open>insert_row\<close> ends with that error and the one
  session it opened has been rolled back, has no open cursor, and is not closed.
\<close>

theorem connection_left_open_by_insert_row:
  "fst (insert_row demo_config constraint_violation demo_world) = Inl IntegrityError \<and>
   sessions (snd (insert_row demo_config constraint_violation demo_world)) =
     [\<lparr>closed = False, open_cursors = 0, pending = []\<rparr>]"
  by (simp add: insert_row_execute_fails demo_faults demo_world_simps)

end
